theory Spec2Isabelle
  imports Main "HOL-Library.Word"
begin

section \<open>JavaScript values and built-ins used by \<open>src/farc.tsx\<close>\<close>

text \<open>
  A JavaScript string is a \<^typ>\<open>string\<close>; a value of type \<open>string | undefined\<close> is a
  \<^typ>\<open>string option\<close> with \<^term>\<open>None\<close> for \<open>undefined\<close>. A thrown exception or a
  rejected promise is the \<open>Inl\<close> of a sum.
\<close>

datatype js_error = Rejected string | UnwrapFailed string

type_synonym bytes = "8 word list"

text \<open>The condition \<open>v ? a : b\<close> on a \<open>string | undefined\<close>: the empty string and
  \<open>undefined\<close> are falsy.\<close>

definition truthy :: "string option \<Rightarrow> bool" where
  "truthy v = (case v of None \<Rightarrow> False | Some s \<Rightarrow> s \<noteq> [])"

text \<open>A \<open>string | undefined\<close> interpolated into a template literal.\<close>

definition template :: "string option \<Rightarrow> string" where
  "template v = (case v of None \<Rightarrow> ''undefined'' | Some s \<Rightarrow> s)"

text \<open>\<open>v || ''\<close> on a \<open>string | undefined\<close>.\<close>

definition or_empty :: "string option \<Rightarrow> string" where
  "or_empty v = (case v of None \<Rightarrow> [] | Some s \<Rightarrow> s)"

text \<open>\<open>s.replace(pat, rep)\<close> with a string pattern: the first occurrence only.\<close>

fun js_replace :: "string \<Rightarrow> string \<Rightarrow> string \<Rightarrow> string" where
  "js_replace pat rep [] = (if pat = [] then rep else [])"
| "js_replace pat rep (c # cs) =
     (if take (length pat) (c # cs) = pat then rep @ drop (length pat) (c # cs)
      else c # js_replace pat rep cs)"

section \<open>The routing framework, as far as \<open>frame\<close> drives it\<close>

text \<open>
  Hono keeps a list of routes, each a method (or the framework's "every method" marker,
  \<open>METHOD_NAME_ALL\<close>), a path pattern and a handler, and remembers the path of the last
  call so that a chained \<open>.get(handler)\<close> or \<open>.post(handler)\<close> registers at that path.
  \<open>use\<close> registers under \<open>METHOD_NAME_ALL\<close>. A route is stored under the application's
  base path merged with the path given, and the router takes it only while it accepts
  routes: the default router stops accepting once it has matched a request, and adding
  a route then throws.
\<close>

datatype verb = GET | POST | PUT | DELETE | OPTIONS | PATCH

datatype route_method = METHOD_NAME_ALL | Only verb

text \<open>The five functions \<open>frame\<close> registers, in the order of the source.\<close>

datatype endpoint = FrameRoute | ImageRoute | DevRenderer | DevGet | DevPost

record route =
  r_method :: route_method
  r_path :: string
  r_handler :: endpoint

record hono_app =
  routes :: "route list"
  last_path :: string
  basePath :: string
  router_open :: bool

text \<open>
  What the framework computes on paths, taken as parameters: \<open>mergePath\<close> of a base path
  and a path, and whether the path of a request matches a registered pattern (patterns
  have parameters and wildcards); and whether the router is one that stops accepting
  routes at its first match, as the default router is.
\<close>

record hono_deps =
  mergePath :: "string \<Rightarrow> string \<Rightarrow> string"
  path_matches :: "string \<Rightarrow> string \<Rightarrow> bool"
  closes_on_match :: bool

definition addRoute ::
  "hono_deps \<Rightarrow> route_method \<Rightarrow> string \<Rightarrow> endpoint \<Rightarrow> hono_app \<Rightarrow> js_error + hono_app" where
  "addRoute H m p h app =
     (if router_open app
      then Inr (app\<lparr>routes := routes app @
                  [\<lparr>r_method = m, r_path = mergePath H (basePath app) p, r_handler = h\<rparr>]\<rparr>)
      else Inl (Rejected ''Can not add a route since the matcher is already built.''))"

definition hono_use ::
  "hono_deps \<Rightarrow> string \<Rightarrow> endpoint \<Rightarrow> hono_app \<Rightarrow> js_error + hono_app" where
  "hono_use H p h app = addRoute H METHOD_NAME_ALL p h (app\<lparr>last_path := p\<rparr>)"

definition hono_get_at ::
  "hono_deps \<Rightarrow> string \<Rightarrow> endpoint \<Rightarrow> hono_app \<Rightarrow> js_error + hono_app" where
  "hono_get_at H p h app = addRoute H (Only GET) p h (app\<lparr>last_path := p\<rparr>)"

definition hono_get :: "hono_deps \<Rightarrow> endpoint \<Rightarrow> hono_app \<Rightarrow> js_error + hono_app" where
  "hono_get H h app = addRoute H (Only GET) (last_path app) h app"

definition hono_post :: "hono_deps \<Rightarrow> endpoint \<Rightarrow> hono_app \<Rightarrow> js_error + hono_app" where
  "hono_post H h app = addRoute H (Only POST) (last_path app) h app"

text \<open>
  Dispatch: the routes whose method and path pattern match run in registration order.
  The renderer middleware of the dev route calls \<open>next\<close>; the four other functions
  return a response. A request that reaches no responding function gets the framework's
  404, here \<^term>\<open>None\<close>.
\<close>

definition route_matches :: "hono_deps \<Rightarrow> verb \<Rightarrow> string \<Rightarrow> route \<Rightarrow> bool" where
  "route_matches H m p r =
     ((r_method r = METHOD_NAME_ALL \<or> r_method r = Only m) \<and> path_matches H (r_path r) p)"

definition responds :: "endpoint \<Rightarrow> bool" where
  "responds h = (h \<noteq> DevRenderer)"

definition responder :: "hono_deps \<Rightarrow> hono_app \<Rightarrow> verb \<Rightarrow> string \<Rightarrow> endpoint option" where
  "responder H app m p =
     map_option r_handler
       (find (\<lambda>r. route_matches H m p r \<and> responds (r_handler r)) (routes app))"

text \<open>Serving a request: the router matches first, then the matching functions run.\<close>

definition dispatch ::
  "hono_deps \<Rightarrow> hono_app \<Rightarrow> verb \<Rightarrow> string \<Rightarrow> endpoint option \<times> hono_app" where
  "dispatch H app m p =
     (responder H app m p,
      app\<lparr>router_open := router_open app \<and> \<not> closes_on_match H\<rparr>)"

section \<open>The class \<open>Farc\<close>\<close>

record 's farc =
  private_initialState :: 's
  hono :: hono_app

text \<open>A new application with no route yet (\<open>new Hono(honoOptions)\<close>).\<close>

definition new_hono :: hono_app where
  "new_hono = \<lparr>routes = [], last_path = ''/'', basePath = ''/'', router_open = True\<rparr>"

text \<open>
  \<open>frame(path, handler)\<close>, lines 78 to 346: the registrations it makes, in the order of
  the source; the first that throws ends the call. \<open>parsePath\<close> is imported from
  \<open>./utils/parsePath.js\<close> and is a parameter here.
\<close>

definition frame ::
  "hono_deps \<Rightarrow> (string \<Rightarrow> string) \<Rightarrow> string \<Rightarrow> 's farc \<Rightarrow> js_error + 's farc" where
  "frame H parsePath path this =
     (case hono_use H (parsePath path) FrameRoute (hono this) of
        Inl e \<Rightarrow> Inl e
      | Inr a1 \<Rightarrow>
         (case hono_get_at H (parsePath path @ ''/image'') ImageRoute a1 of
            Inl e \<Rightarrow> Inl e
          | Inr a2 \<Rightarrow>
             (case hono_use H (parsePath path @ ''/dev'') DevRenderer a2 of
                Inl e \<Rightarrow> Inl e
              | Inr a3 \<Rightarrow>
                 (case hono_get H DevGet a3 of
                    Inl e \<Rightarrow> Inl e
                  | Inr a4 \<Rightarrow>
                     (case hono_post H DevPost a4 of
                        Inl e \<Rightarrow> Inl e
                      | Inr a5 \<Rightarrow> Inr (this\<lparr>hono := a5\<rparr>))))))"

section \<open>The frame page and the image\<close>

text \<open>
  The request as the handlers read it: \<open>c.req.url\<close>, the origin and pathname of
  \<open>new URL(c.req.url)\<close>, the decoded query of \<open>c.req.query()\<close> and the result of
  \<open>c.req.formData()\<close> (string entries; a body that is no form rejects).
\<close>

record request =
  req_method :: verb
  req_url :: string
  origin :: string
  pathname :: string
  query :: "string \<Rightarrow> string option"
  formData :: "js_error + (string \<Rightarrow> string option)"

text \<open>A \<open>meta\<close> element of the document head: its \<open>property\<close> and \<open>content\<close>.\<close>

datatype jsx = Meta (property: string) (content: string)

text \<open>
  The frame context (\<open>FrameContext\<close> and \<open>PreviousFrameContext\<close> of \<open>./types.js\<close>) as
  the object the source reads and spreads: \<open>url\<close> and the method \<open>deriveState\<close>, the
  two properties that line 109 to 113 set (\<^term>\<open>None\<close> while the object has no such
  property; \<open>intents\<close> is set to the parsed intents or to \<open>null\<close>, the inner
  \<^term>\<open>None\<close>), and the remaining properties, which the source never touches.
\<close>

record ('s, 'x) frame_context =
  url :: string
  deriveState :: "unit \<Rightarrow> 's"
  intents :: "jsx list option option"
  previousState :: "'s option"
  others :: 'x

text \<open>The argument object of \<open>getFrameContext\<close>.\<close>

record ('s, 'x) gfc_params =
  p_context :: "('s, 'x) frame_context"
  p_initialState :: 's
  p_previousContext :: "('s, 'x) frame_context option"
  p_request :: request

text \<open>\<open>FrameHandlerReturnType\<close>, lines 41 to 46.\<close>

record ('i, 'img) frame_handler_return =
  action :: "string option"
  image_jsx :: 'img
  imageAspectRatio :: "string option"
  handler_intents :: "'i option"

text \<open>
  What the two routes import: the helpers imported from \<open>./utils\<close>, taken as
  parameters, \<open>URLSearchParams.toString\<close>, and \<open>Headers.set\<close>, which gives the header
  value as it is stored or throws a TypeError on a value that is no header value. The
  awaited ones and the decoder may throw.
\<close>

record ('s, 'x, 'i) frame_deps =
  parsePath :: "string \<Rightarrow> string"
  deserializeJson :: "string option \<Rightarrow> js_error + ('s, 'x) frame_context"
  serializeJson :: "('s, 'x) frame_context \<Rightarrow> string"
  getFrameContext :: "('s, 'x) gfc_params \<Rightarrow> js_error + ('s, 'x) frame_context"
  requestToContext :: "request \<Rightarrow> js_error + ('s, 'x) frame_context"
  parseIntents :: "'i \<Rightarrow> jsx list"
  searchParams_toString :: "(string \<times> string) list \<Rightarrow> string"
  Headers_set :: "string \<Rightarrow> js_error + string"

text \<open>The calls a route makes to \<open>getFrameContext\<close> and to the user's handler, in order.\<close>

datatype ('s, 'x) frame_call =
    CallGetFrameContext "('s, 'x) gfc_params"
  | CallHandler "('s, 'x) frame_context" "('s, 'x) frame_context option"


fun is_handler_call :: "('s, 'x) frame_call \<Rightarrow> bool" where
  "is_handler_call (CallHandler c p) = True"
| "is_handler_call (CallGetFrameContext a) = False"

record html_page =
  head :: "jsx list"
  dev_link :: string

datatype frame_response = Redirect string | Render html_page

text \<open>\<open>c.redirect(location)\<close>: sets the \<open>Location\<close> header, then answers.\<close>

definition c_redirect :: "('s, 'x, 'i) frame_deps \<Rightarrow> string \<Rightarrow> js_error + frame_response" where
  "c_redirect D location =
     (case Headers_set D location of
        Inl e \<Rightarrow> Inl e
      | Inr stored \<Rightarrow> Inr (Redirect stored))"

text \<open>Lines 85 to 89 and 176 to 180: the previous context of the request.\<close>

definition decode_previousContext ::
  "('s, 'x, 'i) frame_deps \<Rightarrow> request \<Rightarrow> js_error + ('s, 'x) frame_context option" where
  "decode_previousContext D req =
     (if truthy (query req ''previousContext'')
      then (case deserializeJson D (query req ''previousContext'') of
              Inl e \<Rightarrow> Inl e
            | Inr v \<Rightarrow> Inr (Some v))
      else Inr None)"

text \<open>Lines 115 to 122: the two \<open>URLSearchParams\<close>, as their entries in insertion order.\<close>

definition ogSearch :: "string option \<Rightarrow> string \<Rightarrow> (string \<times> string) list" where
  "ogSearch previous serializedContext =
     (if truthy previous then [(''previousContext'', or_empty previous)] else []) @
     (if serializedContext \<noteq> [] then [(''context'', serializedContext)] else [])"

definition postSearch :: "string \<Rightarrow> (string \<times> string) list" where
  "postSearch serializedPreviousContext =
     (if serializedPreviousContext \<noteq> []
      then [(''previousContext'', serializedPreviousContext)] else [])"

text \<open>Lines 106 to 113: the parsed intents, and the context handed to the next request.\<close>

definition parsedIntents ::
  "('s, 'x, 'i) frame_deps \<Rightarrow> ('i, 'img) frame_handler_return \<Rightarrow> jsx list option" where
  "parsedIntents D r =
     (case handler_intents r of None \<Rightarrow> None | Some i \<Rightarrow> Some (parseIntents D i))"

definition serializedPreviousContext ::
  "('s, 'x, 'i) frame_deps \<Rightarrow> ('s, 'x) frame_context \<Rightarrow> ('i, 'img) frame_handler_return \<Rightarrow>
   string" where
  "serializedPreviousContext D context r =
     serializeJson D
       (context\<lparr>intents := Some (parsedIntents D r),
                previousState := Some (deriveState context ())\<rparr>)"

text \<open>Lines 124 to 170: the document.\<close>

definition frame_page ::
  "('s, 'x, 'i) frame_deps \<Rightarrow> request \<Rightarrow> ('s, 'x) frame_context \<Rightarrow>
   ('i, 'img) frame_handler_return \<Rightarrow> html_page" where
  "frame_page D req context r =
     (let baseUrl = origin req @ pathname req;
          serializedContext = serializeJson D context;
          og = searchParams_toString D
                 (ogSearch (query req ''previousContext'') serializedContext)
      in \<lparr>head =
            [Meta ''fc:frame'' ''vNext'',
             Meta ''fc:frame:image'' (parsePath D (url context) @ ''/image?'' @ og),
             Meta ''fc:frame:image:aspect_ratio''
               (case imageAspectRatio r of None \<Rightarrow> ''1.91:1'' | Some a \<Rightarrow> a),
             Meta ''og:image'' (parsePath D (url context) @ ''/image?'' @ og),
             Meta ''fc:frame:post_url''
               ((if truthy (action r)
                 then baseUrl @ parsePath D (or_empty (action r))
                 else url context)
                @ ''?''
                @ searchParams_toString D
                    (postSearch (serializedPreviousContext D context r)))]
            @ (case parsedIntents D r of None \<Rightarrow> [] | Some tags \<Rightarrow> tags)
            @ [Meta ''farc:context'' serializedContext]
            @ (if truthy (query req ''previousContext'')
               then [Meta ''farc:prev_context'' (or_empty (query req ''previousContext''))]
               else []),
          dev_link = url context @ ''/dev''\<rparr>)"

text \<open>
  The frame route, lines 79 to 171. The result is the response (or what was thrown), the
  calls made, and the instance after the request.
\<close>

definition frame_route ::
  "('s, 'x, 'i) frame_deps \<Rightarrow>
   (('s, 'x) frame_context \<Rightarrow> ('s, 'x) frame_context option \<Rightarrow>
      js_error + ('i, 'img) frame_handler_return) \<Rightarrow>
   's farc \<Rightarrow> request \<Rightarrow>
   (js_error + frame_response) \<times> ('s, 'x) frame_call list \<times> 's farc" where
  "frame_route D handler this req =
     (case decode_previousContext D req of
        Inl e \<Rightarrow> (Inl e, [], this)
      | Inr previousContext \<Rightarrow>
         (case requestToContext D req of
            Inl e \<Rightarrow> (Inl e, [], this)
          | Inr c0 \<Rightarrow>
             (let args = \<lparr>p_context = c0,
                          p_initialState = private_initialState this,
                          p_previousContext = previousContext,
                          p_request = req\<rparr>
              in case getFrameContext D args of
                   Inl e \<Rightarrow> (Inl e, [CallGetFrameContext args], this)
                 | Inr context \<Rightarrow>
                    if url context \<noteq> parsePath D (req_url req)
                    then (c_redirect D (url context @ ''?previousContext=''
                                          @ template (query req ''previousContext'')),
                          [CallGetFrameContext args], this)
                    else (case handler context previousContext of
                            Inl e \<Rightarrow>
                              (Inl e,
                               [CallGetFrameContext args,
                                CallHandler context previousContext], this)
                          | Inr r \<Rightarrow>
                              (Inr (Render (frame_page D req context r)),
                               [CallGetFrameContext args,
                                CallHandler context previousContext], this)))))"

text \<open>The image route, lines 174 to 189; the response is \<open>new ImageResponse(image)\<close>.\<close>

definition image_route ::
  "('s, 'x, 'i) frame_deps \<Rightarrow>
   (('s, 'x) frame_context \<Rightarrow> ('s, 'x) frame_context option \<Rightarrow>
      js_error + ('i, 'img) frame_handler_return) \<Rightarrow>
   's farc \<Rightarrow> request \<Rightarrow>
   (js_error + 'img) \<times> ('s, 'x) frame_call list \<times> 's farc" where
  "image_route D handler this req =
     (case decode_previousContext D req of
        Inl e \<Rightarrow> (Inl e, [], this)
      | Inr previousContext \<Rightarrow>
         (case deserializeJson D (query req ''context'') of
            Inl e \<Rightarrow> (Inl e, [], this)
          | Inr c0 \<Rightarrow>
             (let args = \<lparr>p_context = c0,
                          p_initialState = private_initialState this,
                          p_previousContext = previousContext,
                          p_request = req\<rparr>
              in case getFrameContext D args of
                   Inl e \<Rightarrow> (Inl e, [CallGetFrameContext args], this)
                 | Inr context \<Rightarrow>
                    (case handler context previousContext of
                       Inl e \<Rightarrow>
                         (Inl e,
                          [CallGetFrameContext args,
                           CallHandler context previousContext], this)
                     | Inr r \<Rightarrow>
                         (Inr (image_jsx r),
                          [CallGetFrameContext args,
                           CallHandler context previousContext], this)))))"

section \<open>The developer preview\<close>

text \<open>\<open>bytesToHex\<close> and \<open>Buffer.toString('hex')\<close>: two lower-case digits per byte.\<close>

definition hex_digit :: "nat \<Rightarrow> char" where
  "hex_digit n = ''0123456789abcdef'' ! (n mod 16)"

definition bytesToHex :: "bytes \<Rightarrow> string" where
  "bytesToHex bs = concat (map (\<lambda>b. [hex_digit (unat b div 16), hex_digit (unat b)]) bs)"

text \<open>\<open>Buffer.from(s, 'hex')\<close>: one byte per pair of digits, up to the first pair that is
  not hexadecimal.\<close>

definition hex_value :: "char \<Rightarrow> nat option" where
  "hex_value c =
     (let n = of_char c :: nat in
      if 48 \<le> n \<and> n \<le> 57 then Some (n - 48)
      else if 97 \<le> n \<and> n \<le> 102 then Some (n - 87)
      else if 65 \<le> n \<and> n \<le> 70 then Some (n - 55)
      else None)"

fun buffer_from_hex :: "string \<Rightarrow> bytes" where
  "buffer_from_hex (a # b # cs) =
     (case hex_value a of
        None \<Rightarrow> []
      | Some x \<Rightarrow> (case hex_value b of
                     None \<Rightarrow> []
                   | Some y \<Rightarrow> of_nat (16 * x + y) # buffer_from_hex cs))"
| "buffer_from_hex cs = []"

text \<open>\<open>Buffer.from(s)\<close> and \<open>buffer.toString('utf-8')\<close>: a \<^typ>\<open>string\<close> is already the
  bytes of the text.\<close>

definition buffer_from :: "string \<Rightarrow> bytes" where
  "buffer_from s = map of_char s"

definition buffer_toString :: "bytes \<Rightarrow> string" where
  "buffer_toString bs = map (\<lambda>b. char_of (unat b)) bs"

text \<open>The objects of lines 287 to 304.\<close>

record cast_id =
  cid_fid :: nat
  cid_hash :: bytes

record frame_action_body =
  fab_url :: bytes
  fab_buttonIndex :: "int option"
  fab_castId :: cast_id
  fab_inputText :: "bytes option"

record data_options =
  opt_fid :: nat
  opt_network :: nat

datatype signer = NobleEd25519Signer bytes

text \<open>The body of the callback request, lines 309 to 330, before \<open>JSON.stringify\<close>.\<close>

record cast_id_hex =
  ud_cast_fid :: nat
  ud_cast_hash :: string

record untrusted_data =
  ud_buttonIndex :: "int option"
  ud_castId :: cast_id_hex
  ud_fid :: nat
  ud_inputText :: "string option"
  ud_messageHash :: string
  ud_network :: nat
  ud_timestamp :: nat
  ud_url :: string

record callback_body =
  untrustedData :: untrusted_data
  trustedData_messageBytes :: string

record fetch_request =
  fr_method :: verb
  fr_url :: "string option"
  fr_body :: "string option"

record http_response =
  status :: nat
  statusText :: string
  body_text :: "js_error + string"

text \<open>
  What the dev routes import. The world \<open>'w\<close> is whatever the random generator, the
  clock and the network depend on; \<open>'m\<close> is the protocol library's message.
  \<open>parseInt\<close> gives \<^term>\<open>None\<close> for \<open>NaN\<close>; \<open>makeFrameAction\<close> gives a result, \<open>Inl\<close> its
  error.
\<close>

record ('w, 'm, 'f, 'h, 'r) dev_deps =
  fetch :: "fetch_request \<Rightarrow> 'w \<Rightarrow> (js_error + http_response) \<times> 'w"
  randomPrivateKey :: "'w \<Rightarrow> bytes \<times> 'w"
  makeFrameAction ::
    "frame_action_body \<Rightarrow> data_options \<Rightarrow> signer \<Rightarrow> 'w \<Rightarrow> (string + 'm) \<times> 'w"
  message_hash :: "'m \<Rightarrow> bytes"
  message_timestamp :: "'m \<Rightarrow> nat"
  Message_encode :: "'m \<Rightarrow> bytes"
  parseInt :: "string \<Rightarrow> int option"
  JSON_stringify :: "callback_body \<Rightarrow> string"
  htmlToFrame :: "string \<Rightarrow> 'f"
  htmlToState :: "string \<Rightarrow> 'h"
  getRoutes :: "string \<Rightarrow> route list \<Rightarrow> 'r"

text \<open>What a dev handler did, in order: the key it drew, the signing call, the requests
  it sent and what came back.\<close>

datatype dev_event =
    DrewKey bytes
  | MadeFrameAction frame_action_body data_options signer
  | Fetched fetch_request "js_error + http_response"

fun is_post :: "dev_event \<Rightarrow> bool" where
  "is_post (Fetched q r) = (fr_method q = POST)"
| "is_post e = False"

fun is_fetch :: "dev_event \<Rightarrow> bool" where
  "is_fetch (Fetched q r) = True"
| "is_fetch e = False"

text \<open>The props of \<open>Dev\<close> and of \<open>Preview\<close>, and the page the renderer of lines 193 to 213
  wraps them in (its title shows the path).\<close>

record ('f, 'h, 'r) preview_props =
  pv_baseUrl :: string
  pv_error :: "string option"
  pv_frame :: 'f
  pv_routes :: 'r
  pv_state :: 'h

datatype ('f, 'h, 'r) dev_component =
    Dev string 'f 'r 'h
  | Preview "('f, 'h, 'r) preview_props"

record ('f, 'h, 'r) dev_page =
  title_path :: string
  children :: "('f, 'h, 'r) dev_component"

definition dev_render :: "request \<Rightarrow> ('f, 'h, 'r) dev_component \<Rightarrow> ('f, 'h, 'r) dev_page" where
  "dev_render req c =
     (let path = js_replace ''/dev'' [] (pathname req)
      in \<lparr>title_path = (if path = [] then ''/'' else path), children = c\<rparr>)"

text \<open>Dev route, GET: lines 214 to 224.\<close>

definition dev_get ::
  "('w, 'm, 'f, 'h, 'r) dev_deps \<Rightarrow> 's farc \<Rightarrow> request \<Rightarrow> 'w \<Rightarrow>
   (js_error + ('f, 'h, 'r) dev_page) \<times> dev_event list \<times> 's farc \<times> 'w" where
  "dev_get D this req w =
     (let baseUrl = js_replace ''/dev'' [] (req_url req);
          page = \<lparr>fr_method = GET, fr_url = Some baseUrl, fr_body = None\<rparr>;
          (res, w1) = fetch D page w
      in case res of
           Inl e \<Rightarrow> (Inl e, [Fetched page res], this, w1)
         | Inr response \<Rightarrow>
            (case body_text response of
               Inl e \<Rightarrow> (Inl e, [Fetched page res], this, w1)
             | Inr text \<Rightarrow>
                (Inr (dev_render req
                        (Dev baseUrl (htmlToFrame D text)
                           (getRoutes D baseUrl (routes (hono this)))
                           (htmlToState D text))),
                 [Fetched page res], this, w1)))"

text \<open>Dev route, POST. Lines 226 to 238: what is read from the request.\<close>

definition dev_baseUrl :: "request \<Rightarrow> string" where
  "dev_baseUrl req = js_replace ''/dev'' [] (req_url req)"

definition form_buttonIndex ::
  "('w, 'm, 'f, 'h, 'r) dev_deps \<Rightarrow> (string \<Rightarrow> string option) \<Rightarrow> int option" where
  "form_buttonIndex D form =
     parseInt D (case form ''buttonIndex'' of Some s \<Rightarrow> s | None \<Rightarrow> [])"

definition form_inputText :: "(string \<Rightarrow> string option) \<Rightarrow> bytes option" where
  "form_inputText form =
     (case form ''inputText'' of
        None \<Rightarrow> None
      | Some s \<Rightarrow> if s = [] then None else Some (buffer_from s))"

text \<open>Lines 287 to 299.\<close>

definition placeholder_fid :: nat where
  "placeholder_fid = 2"

definition castId :: cast_id where
  "castId = \<lparr>cid_fid = placeholder_fid,
             cid_hash = buffer_from_hex ''0000000000000000000000000000000000000000''\<rparr>"

definition frameActionBody ::
  "('w, 'm, 'f, 'h, 'r) dev_deps \<Rightarrow> request \<Rightarrow> (string \<Rightarrow> string option) \<Rightarrow>
   frame_action_body" where
  "frameActionBody D req form =
     \<lparr>fab_url = buffer_from (dev_baseUrl req),
      fab_buttonIndex = form_buttonIndex D form,
      fab_castId = castId,
      fab_inputText = form_inputText form\<rparr>"

definition frameActionOptions :: data_options where
  "frameActionOptions = \<lparr>opt_fid = placeholder_fid, opt_network = 1\<rparr>"

text \<open>Lines 307 to 331: the request to the callback URL.\<close>

definition callback_request ::
  "('w, 'm, 'f, 'h, 'r) dev_deps \<Rightarrow> request \<Rightarrow> (string \<Rightarrow> string option) \<Rightarrow> 'm \<Rightarrow>
   fetch_request" where
  "callback_request D req form message =
     \<lparr>fr_method = POST,
      fr_url = form ''postUrl'',
      fr_body = Some (JSON_stringify D
        \<lparr>untrustedData =
           \<lparr>ud_buttonIndex = form_buttonIndex D form,
            ud_castId = \<lparr>ud_cast_fid = cid_fid castId,
                         ud_cast_hash = ''0x'' @ bytesToHex (cid_hash castId)\<rparr>,
            ud_fid = placeholder_fid,
            ud_inputText = map_option buffer_toString (form_inputText form),
            ud_messageHash = ''0x'' @ bytesToHex (message_hash D message),
            ud_network = 1,
            ud_timestamp = message_timestamp D message,
            ud_url = dev_baseUrl req\<rparr>,
         trustedData_messageBytes = bytesToHex (Message_encode D message)\<rparr>)\<rparr>"

definition page_request :: "request \<Rightarrow> fetch_request" where
  "page_request req = \<lparr>fr_method = GET, fr_url = Some (dev_baseUrl req), fr_body = None\<rparr>"

text \<open>Lines 337 to 345: from the response that is kept to the rendered preview.\<close>

definition preview_of ::
  "('w, 'm, 'f, 'h, 'r) dev_deps \<Rightarrow> 's farc \<Rightarrow> request \<Rightarrow> string option \<Rightarrow>
   http_response \<Rightarrow> js_error + ('f, 'h, 'r) dev_page" where
  "preview_of D this req error response =
     (case body_text response of
        Inl e \<Rightarrow> Inl e
      | Inr text \<Rightarrow>
         Inr (dev_render req
                (Preview \<lparr>pv_baseUrl = dev_baseUrl req,
                          pv_error = error,
                          pv_frame = htmlToFrame D text,
                          pv_routes = getRoutes D (dev_baseUrl req) (routes (hono this)),
                          pv_state = htmlToState D text\<rparr>)))"

text \<open>Lines 225 to 346.\<close>

definition dev_post ::
  "('w, 'm, 'f, 'h, 'r) dev_deps \<Rightarrow> 's farc \<Rightarrow> request \<Rightarrow> 'w \<Rightarrow>
   (js_error + ('f, 'h, 'r) dev_page) \<times> dev_event list \<times> 's farc \<times> 'w" where
  "dev_post D this req w =
     (case formData req of
        Inl e \<Rightarrow> (Inl e, [], this, w)
      | Inr form \<Rightarrow>
         (let (privateKeyBytes, w1) = randomPrivateKey D w;
              body = frameActionBody D req form;
              sgn = NobleEd25519Signer privateKeyBytes;
              (frameActionMessage, w2) = makeFrameAction D body frameActionOptions sgn w1;
              log1 = [DrewKey privateKeyBytes, MadeFrameAction body frameActionOptions sgn]
          in case frameActionMessage of
               Inl e \<Rightarrow> (Inl (UnwrapFailed e), log1, this, w2)
             | Inr message \<Rightarrow>
                (let callback = callback_request D req form message;
                     (res, w3) = fetch D callback w2;
                     log2 = log1 @ [Fetched callback res]
                 in case res of
                      Inl e \<Rightarrow> (Inl e, log2, this, w3)
                    | Inr response \<Rightarrow>
                       (let error = (if status response \<noteq> 200
                                     then Some (statusText response) else None)
                        in if status response \<noteq> 200
                           then (let (res', w4) = fetch D (page_request req) w3;
                                     log3 = log2 @ [Fetched (page_request req) res']
                                 in case res' of
                                      Inl e \<Rightarrow> (Inl e, log3, this, w4)
                                    | Inr response' \<Rightarrow>
                                       (preview_of D this req error response',
                                        log3, this, w4))
                           else (preview_of D this req error response,
                                 log2, this, w3)))))"

section \<open>The intents, from the specification\<close>

text \<open>
  Modelled from the spec: \<open>parseIntents\<close> is imported from \<open>./utils/parseIntents.js\<close>,
  which is not in \<open>src/farc.tsx\<close>. The specification calls the intents "an ordered
  sequence of declarative UI controls (buttons, text input) supplied by the handler;
  translated into protocol meta-tags; no identity beyond position in the sequence".
  So each intent gives its tags from its position and itself, and the tags of the
  sequence follow the sequence; \<open>tag\<close> is the translation of one intent.
\<close>

fun parseIntents_from :: "(nat \<Rightarrow> 'k \<Rightarrow> jsx list) \<Rightarrow> nat \<Rightarrow> 'k list \<Rightarrow> jsx list" where
  "parseIntents_from tag n [] = []"
| "parseIntents_from tag n (x # xs) = tag n x @ parseIntents_from tag (Suc n) xs"

definition parseIntents_spec :: "(nat \<Rightarrow> 'k \<Rightarrow> jsx list) \<Rightarrow> 'k list \<Rightarrow> jsx list" where
  "parseIntents_spec tag xs = parseIntents_from tag 0 xs"

section \<open>An instance to run the routes on\<close>

text \<open>
  A small application: one frame at \<open>/a\<close>, a state that is a number, intents that are
  button labels, and stand-ins for the imported helpers, the framework, the network and
  the signing library. The router's stand-in matches segment by segment, a segment
  that starts with a colon standing for any segment that is not empty. The stand-in for
  \<open>Headers.set\<close> strips the white space around the value and rejects a value with a NUL,
  a line feed or a carriage return. The signing stand-in rejects a button index above
  four.
\<close>

fun segments :: "string \<Rightarrow> string \<Rightarrow> string list" where
  "segments cur [] = [rev cur]"
| "segments cur (c # cs) =
     (if c = CHR ''/'' then rev cur # segments [] cs else segments (c # cur) cs)"

fun segments_match :: "string list \<Rightarrow> string list \<Rightarrow> bool" where
  "segments_match [] [] = True"
| "segments_match (p # ps) (x # xs) =
     ((p = x \<or> (take 1 p = '':'' \<and> x \<noteq> [])) \<and> segments_match ps xs)"
| "segments_match ps xs = False"

definition example_hono :: hono_deps where
  "example_hono =
     \<lparr>mergePath = (\<lambda>b p.
        let b' = (if b \<noteq> [] \<and> last b = CHR ''/'' then butlast b else b);
            p' = (if take 1 p = ''/'' then p else CHR ''/'' # p)
        in if p' = ''/'' then (if b' = [] then ''/'' else b) else b' @ p'),
      path_matches = (\<lambda>pattern p. segments_match (segments [] pattern) (segments [] p)),
      closes_on_match = True\<rparr>"

definition is_header_space :: "char \<Rightarrow> bool" where
  "is_header_space c = (c = CHR 0x09 \<or> c = CHR 0x0A \<or> c = CHR 0x0D \<or> c = CHR 0x20)"

definition example_Headers_set :: "string \<Rightarrow> js_error + string" where
  "example_Headers_set v =
     (let stored = rev (dropWhile is_header_space (rev (dropWhile is_header_space v)))
      in if list_ex (\<lambda>c. c = CHR 0x00 \<or> c = CHR 0x0A \<or> c = CHR 0x0D) stored
         then Inl (Rejected ''TypeError: invalid header value'')
         else Inr stored)"

definition example_context :: "string \<Rightarrow> (nat, unit) frame_context" where
  "example_context u =
     \<lparr>url = u, deriveState = (\<lambda>_. 7), intents = None, previousState = None, others = ()\<rparr>"

definition example_button :: "nat \<Rightarrow> string \<Rightarrow> jsx list" where
  "example_button n label = [Meta (''fc:frame:button:'' @ [''1234'' ! n]) label]"

definition example_deps :: "(nat, unit, string list) frame_deps" where
  "example_deps =
     \<lparr>parsePath = takeWhile (\<lambda>c. c \<noteq> CHR ''?''),
      deserializeJson =
        (\<lambda>v. case v of
                None \<Rightarrow> Inl (Rejected ''nothing to decode'')
              | Some s \<Rightarrow> if s = ''garbage'' then Inl (Rejected ''cannot decode'')
                          else Inr (example_context s)),
      serializeJson =
        (\<lambda>c. case previousState c of None \<Rightarrow> url c | Some n \<Rightarrow> url c @ ''+state''),
      getFrameContext =
        (\<lambda>a. case p_previousContext a of
                None \<Rightarrow> Inr (p_context a)
              | Some p \<Rightarrow> Inr ((p_context a)\<lparr>url := url p\<rparr>)),
      requestToContext =
        (\<lambda>r. Inr (example_context (takeWhile (\<lambda>c. c \<noteq> CHR ''?'') (req_url r)))),
      parseIntents = parseIntents_spec example_button,
      searchParams_toString = (\<lambda>ps. concat (map (\<lambda>(k, v). k @ ''='' @ v @ ''&'') ps)),
      Headers_set = example_Headers_set\<rparr>"

definition example_handler ::
  "string option \<Rightarrow> string list option \<Rightarrow> (nat, unit) frame_context \<Rightarrow>
   (nat, unit) frame_context option \<Rightarrow>
   js_error + (string list, string) frame_handler_return" where
  "example_handler ratio labels c p =
     Inr \<lparr>action = None, image_jsx = ''<div/>'', imageAspectRatio = ratio,
          handler_intents = labels\<rparr>"

definition example_request :: "(string \<Rightarrow> string option) \<Rightarrow> request" where
  "example_request q =
     \<lparr>req_method = GET, req_url = ''http://h/a'', origin = ''http://h'', pathname = ''/a'',
      query = q, formData = Inl (Rejected ''not a form'')\<rparr>"

definition example_farc :: "nat farc" where
  "example_farc =
     \<lparr>private_initialState = 0,
      hono = \<lparr>routes =
                [\<lparr>r_method = METHOD_NAME_ALL, r_path = ''/a'', r_handler = FrameRoute\<rparr>,
                 \<lparr>r_method = Only GET, r_path = ''/a/image'', r_handler = ImageRoute\<rparr>,
                 \<lparr>r_method = METHOD_NAME_ALL, r_path = ''/a/dev'', r_handler = DevRenderer\<rparr>,
                 \<lparr>r_method = Only GET, r_path = ''/a/dev'', r_handler = DevGet\<rparr>,
                 \<lparr>r_method = Only POST, r_path = ''/a/dev'', r_handler = DevPost\<rparr>],
              last_path = ''/a/dev'', basePath = ''/'', router_open = True\<rparr>\<rparr>"

definition example_dev_deps :: "(nat, nat, string, nat, nat) dev_deps" where
  "example_dev_deps =
     \<lparr>fetch = (\<lambda>q w.
        (if fr_method q = POST \<and> fr_url q = Some ''http://h/a''
         then Inr \<lparr>status = 200, statusText = ''OK'', body_text = Inr ''<next/>''\<rparr>
         else if fr_method q = POST
         then Inr \<lparr>status = 500, statusText = ''Internal Server Error'', body_text = Inr []\<rparr>
         else Inr \<lparr>status = 200, statusText = ''OK'', body_text = Inr ''<initial/>''\<rparr>,
         Suc w)),
      randomPrivateKey = (\<lambda>w. (replicate 32 (of_nat w), Suc w)),
      makeFrameAction = (\<lambda>b opts s w.
        (case fab_buttonIndex b of
           None \<Rightarrow> Inr w
         | Some n \<Rightarrow> if 4 < n then Inl ''invalid button index'' else Inr w,
         Suc w)),
      message_hash = (\<lambda>m. [of_nat m]),
      message_timestamp = (\<lambda>m. m),
      Message_encode = (\<lambda>m. [of_nat m, 0]),
      parseInt = (\<lambda>s. if s = ''1'' then Some 1 else if s = ''9'' then Some 9 else None),
      JSON_stringify = (\<lambda>b. ud_url (untrustedData b) @ '' '' @
                              ud_messageHash (untrustedData b) @ '' '' @
                              trustedData_messageBytes b),
      htmlToFrame = (\<lambda>t. t),
      htmlToState = length,
      getRoutes = (\<lambda>b rs. length rs)\<rparr>"

definition example_dev_request :: "(string \<Rightarrow> string option) \<Rightarrow> request" where
  "example_dev_request form =
     \<lparr>req_method = POST, req_url = ''http://h/a/dev'', origin = ''http://h'',
      pathname = ''/a/dev'', query = Map.empty, formData = Inr form\<rparr>"

section \<open>Facts shared by the theorems\<close>

lemma frame_open:
  "router_open (hono this) \<Longrightarrow>
   frame H pp path this =
     Inr (this\<lparr>hono := (hono this)
       \<lparr>routes := routes (hono this) @
          [\<lparr>r_method = METHOD_NAME_ALL,
            r_path = mergePath H (basePath (hono this)) (pp path), r_handler = FrameRoute\<rparr>,
           \<lparr>r_method = Only GET,
            r_path = mergePath H (basePath (hono this)) (pp path @ ''/image''),
            r_handler = ImageRoute\<rparr>,
           \<lparr>r_method = METHOD_NAME_ALL,
            r_path = mergePath H (basePath (hono this)) (pp path @ ''/dev''),
            r_handler = DevRenderer\<rparr>,
           \<lparr>r_method = Only GET,
            r_path = mergePath H (basePath (hono this)) (pp path @ ''/dev''),
            r_handler = DevGet\<rparr>,
           \<lparr>r_method = Only POST,
            r_path = mergePath H (basePath (hono this)) (pp path @ ''/dev''),
            r_handler = DevPost\<rparr>],
        last_path := pp path @ ''/dev''\<rparr>\<rparr>)"
  by (simp add: frame_def hono_post_def hono_get_def hono_use_def hono_get_at_def addRoute_def)

lemma frame_closed:
  "\<not> router_open (hono this) \<Longrightarrow>
   frame H pp path this =
     Inl (Rejected ''Can not add a route since the matcher is already built.'')"
  by (simp add: frame_def hono_use_def addRoute_def)

lemma head_frame_page:
  "head (frame_page D req ctx r) =
     [Meta ''fc:frame'' ''vNext'',
      Meta ''fc:frame:image''
        (parsePath D (url ctx) @ ''/image?'' @
         searchParams_toString D (ogSearch (query req ''previousContext'') (serializeJson D ctx))),
      Meta ''fc:frame:image:aspect_ratio''
        (case imageAspectRatio r of None \<Rightarrow> ''1.91:1'' | Some a \<Rightarrow> a),
      Meta ''og:image''
        (parsePath D (url ctx) @ ''/image?'' @
         searchParams_toString D (ogSearch (query req ''previousContext'') (serializeJson D ctx))),
      Meta ''fc:frame:post_url''
        ((if truthy (action r) then (origin req @ pathname req) @ parsePath D (or_empty (action r))
          else url ctx) @ ''?'' @
         searchParams_toString D (postSearch (serializedPreviousContext D ctx r)))]
     @ (case parsedIntents D r of None \<Rightarrow> [] | Some tags \<Rightarrow> tags)
     @ [Meta ''farc:context'' (serializeJson D ctx)]
     @ (if truthy (query req ''previousContext'')
        then [Meta ''farc:prev_context'' (or_empty (query req ''previousContext''))] else [])"
  by (simp add: frame_page_def Let_def)

lemma parseIntents_from_enumerate:
  "parseIntents_from tag n xs = concat (map (\<lambda>(k, x). tag k x) (enumerate n xs))"
  by (induction xs arbitrary: n) simp_all

lemma castId_value: "castId = \<lparr>cid_fid = 2, cid_hash = replicate 20 0\<rparr>"
  by (simp add: castId_def placeholder_fid_def hex_value_def numeral_eq_Suc)







subsection \<open>The example instance, evaluated\<close>

lemma example_decode_none:
  "decode_previousContext example_deps (example_request Map.empty) = Inr None"
  by (simp add: decode_previousContext_def example_request_def truthy_def)

lemma example_requestToContext:
  "requestToContext example_deps (example_request q) = Inr (example_context ''http://h/a'')"
  by (simp add: example_deps_def example_request_def)

lemma example_getFrameContext_none:
  "getFrameContext example_deps \<lparr>p_context = c, p_initialState = i, p_previousContext = None,
     p_request = q\<rparr> = Inr c"
  by (simp add: example_deps_def)

lemma example_parsePath:
  "parsePath example_deps (req_url (example_request q)) = ''http://h/a''"
  by (simp add: example_deps_def example_request_def)

lemma example_decode_some:
  "decode_previousContext example_deps (example_request [''previousContext'' \<mapsto> ''http://h/b''])
     = Inr (Some (example_context ''http://h/b''))"
  by (simp add: decode_previousContext_def example_request_def truthy_def example_deps_def)

lemma example_getFrameContext_some:
  "getFrameContext example_deps \<lparr>p_context = c, p_initialState = i, p_previousContext = Some p,
     p_request = q\<rparr> = Inr (c\<lparr>url := url p\<rparr>)"
  by (simp add: example_deps_def)

lemma example_dev_request_fields:
  "formData (example_dev_request f) = Inr f"
  "req_url (example_dev_request f) = ''http://h/a/dev''"
  "pathname (example_dev_request f) = ''/a/dev''"
  by (simp_all add: example_dev_request_def)

lemma example_dev_baseUrl: "dev_baseUrl (example_dev_request f) = ''http://h/a''"
  by (simp add: dev_baseUrl_def example_dev_request_def)

lemma example_callback:
  "callback_request example_dev_deps (example_dev_request f) f (Suc 0) =
     \<lparr>fr_method = POST, fr_url = f ''postUrl'',
      fr_body = Some ''http://h/a 0x01 0100''\<rparr>"
  by (simp add: callback_request_def example_dev_deps_def example_dev_baseUrl
        bytesToHex_def hex_digit_def)

lemma example_page_request:
  "page_request (example_dev_request f) =
     \<lparr>fr_method = GET, fr_url = Some ''http://h/a'', fr_body = None\<rparr>"
  by (simp add: page_request_def example_dev_baseUrl)

lemma example_sign:
  "f ''buttonIndex'' = Some ''1'' \<Longrightarrow>
   makeFrameAction example_dev_deps (frameActionBody example_dev_deps (example_dev_request f) f)
     opts s w = (Inr w, Suc w)"
  by (simp add: example_dev_deps_def frameActionBody_def form_buttonIndex_def)

lemma example_preview:
  "dev_render (example_dev_request f)
     (Preview \<lparr>pv_baseUrl = dev_baseUrl (example_dev_request f),
               pv_error = e,
               pv_frame = htmlToFrame example_dev_deps t,
               pv_routes = getRoutes example_dev_deps (dev_baseUrl (example_dev_request f))
                             (routes (hono example_farc)),
               pv_state = htmlToState example_dev_deps t\<rparr>) =
   \<lparr>title_path = ''/a'',
    children = Preview \<lparr>pv_baseUrl = ''http://h/a'', pv_error = e, pv_frame = t,
                         pv_routes = 5, pv_state = length t\<rparr>\<rparr>"
  by (simp add: dev_render_def Let_def example_dev_baseUrl example_dev_request_fields
        example_dev_deps_def example_farc_def)

section \<open>Registration\<close>

text \<open>
  C2, as the code has it: on an instance whose router accepts routes,
  \<open>frame(path, handler)\<close> adds five routes and no other, stored under the base path
  merged with \<open>parsePath(path)\<close>, with that path followed by \<open>/image\<close> and with that path
  followed by \<open>/dev\<close>. The frame page and the renderer of the developer preview are
  registered with \<open>use\<close>, that is for every method; the image for GET; the two handlers
  of the preview for GET and for POST. If the instance had no route, a request whose
  path matches the frame's pattern is answered by the frame page whatever its method;
  otherwise by the image on GET if it matches the image's pattern; otherwise by the
  preview on GET and on POST if it matches the preview's; and by nothing else. On an
  instance whose router no longer accepts routes, as after a request was served with a
  router that closes at its first match, \<open>frame\<close> throws.
\<close>

theorem frame_registers:
  "(router_open (hono this) \<longrightarrow>
      (\<exists>t. frame H pp path this = Inr t
         \<and> private_initialState t = private_initialState this
         \<and> basePath (hono t) = basePath (hono this)
         \<and> routes (hono t) =
             routes (hono this) @
               [\<lparr>r_method = METHOD_NAME_ALL,
                 r_path = mergePath H (basePath (hono this)) (pp path),
                 r_handler = FrameRoute\<rparr>,
                \<lparr>r_method = Only GET,
                 r_path = mergePath H (basePath (hono this)) (pp path @ ''/image''),
                 r_handler = ImageRoute\<rparr>,
                \<lparr>r_method = METHOD_NAME_ALL,
                 r_path = mergePath H (basePath (hono this)) (pp path @ ''/dev''),
                 r_handler = DevRenderer\<rparr>,
                \<lparr>r_method = Only GET,
                 r_path = mergePath H (basePath (hono this)) (pp path @ ''/dev''),
                 r_handler = DevGet\<rparr>,
                \<lparr>r_method = Only POST,
                 r_path = mergePath H (basePath (hono this)) (pp path @ ''/dev''),
                 r_handler = DevPost\<rparr>]
         \<and> (routes (hono this) = [] \<longrightarrow>
               responder H (hono t) m q =
                 (if path_matches H (mergePath H (basePath (hono this)) (pp path)) q
                  then Some FrameRoute
                  else if path_matches H
                            (mergePath H (basePath (hono this)) (pp path @ ''/image'')) q
                          \<and> m = GET
                  then Some ImageRoute
                  else if path_matches H
                            (mergePath H (basePath (hono this)) (pp path @ ''/dev'')) q
                          \<and> m = GET
                  then Some DevGet
                  else if path_matches H
                            (mergePath H (basePath (hono this)) (pp path @ ''/dev'')) q
                          \<and> m = POST
                  then Some DevPost
                  else None))))
   \<and> (\<not> router_open (hono this) \<longrightarrow>
        frame H pp path this =
          Inl (Rejected ''Can not add a route since the matcher is already built.''))
   \<and> (closes_on_match H \<longrightarrow>
        frame H pp path (this\<lparr>hono := snd (dispatch H (hono this) m q)\<rparr>) =
          Inl (Rejected ''Can not add a route since the matcher is already built.''))"
  by (auto simp add: frame_open frame_closed responder_def route_matches_def responds_def
        dispatch_def)

theorem frame_registers_witness:
  "(\<exists>t. frame example_hono id ''/u/:id'' \<lparr>private_initialState = (0::nat), hono = new_hono\<rparr>
          = Inr t
      \<and> map r_path (routes (hono t)) =
          [''/u/:id'', ''/u/:id/image'', ''/u/:id/dev'', ''/u/:id/dev'', ''/u/:id/dev'']
      \<and> responder example_hono (hono t) GET ''/u/5'' = Some FrameRoute
      \<and> responder example_hono (hono t) DELETE ''/u/5'' = Some FrameRoute
      \<and> responder example_hono (hono t) GET ''/u/5/image'' = Some ImageRoute
      \<and> responder example_hono (hono t) POST ''/u/5/image'' = None
      \<and> responder example_hono (hono t) POST ''/u/5/dev'' = Some DevPost
      \<and> responder example_hono (hono t) PUT ''/u/5/dev'' = None)
   \<and> (\<exists>t. frame example_hono (\<lambda>p. []) ''/'' \<lparr>private_initialState = (0::nat), hono = new_hono\<rparr>
          = Inr t
      \<and> map r_path (routes (hono t)) = [''/'', ''/image'', ''/dev'', ''/dev'', ''/dev'']
      \<and> responder example_hono (hono t) GET ''/'' = Some FrameRoute)
   \<and> frame example_hono id ''/b''
         (example_farc\<lparr>hono := snd (dispatch example_hono (hono example_farc) GET ''/a'')\<rparr>)
       = Inl (Rejected ''Can not add a route since the matcher is already built.'')"
proof -
  let ?fresh = "\<lparr>private_initialState = (0::nat), hono = new_hono\<rparr>"
  have fresh: "router_open (hono ?fresh)" "routes (hono ?fresh) = []"
    "basePath (hono ?fresh) = ''/''"
    by (simp_all add: new_hono_def)
  have closes: "closes_on_match example_hono"
    by (simp add: example_hono_def)
  have nh: "basePath new_hono = ''/''" "routes new_hono = []"
    by (simp_all add: new_hono_def)
  have merge: "mergePath example_hono ''/'' ''/u/:id'' = ''/u/:id''"
    "mergePath example_hono ''/'' ''/u/:id/image'' = ''/u/:id/image''"
    "mergePath example_hono ''/'' ''/u/:id/dev'' = ''/u/:id/dev''"
    "mergePath example_hono ''/'' [] = ''/''"
    "mergePath example_hono ''/'' ''/image'' = ''/image''"
    "mergePath example_hono ''/'' ''/dev'' = ''/dev''"
    by (simp_all add: example_hono_def Let_def)
  have matches:
    "path_matches example_hono ''/u/:id'' ''/u/5''"
    "\<not> path_matches example_hono ''/u/:id'' ''/u/5/image''"
    "\<not> path_matches example_hono ''/u/:id'' ''/u/5/dev''"
    "path_matches example_hono ''/u/:id/image'' ''/u/5/image''"
    "\<not> path_matches example_hono ''/u/:id/image'' ''/u/5/dev''"
    "path_matches example_hono ''/u/:id/dev'' ''/u/5/dev''"
    "\<not> path_matches example_hono ''/u/:id/dev'' ''/u/5/image''"
    "path_matches example_hono ''/'' ''/''"
    by (simp_all add: example_hono_def)
  note reg = frame_registers [THEN conjunct1, rule_format, OF fresh(1), of example_hono]
  from reg [of id "''/u/:id''"] obtain t where
    t: "frame example_hono id ''/u/:id'' ?fresh = Inr t"
    and rt: "routes (hono t) = routes (hono ?fresh) @
      [\<lparr>r_method = METHOD_NAME_ALL,
        r_path = mergePath example_hono (basePath (hono ?fresh)) (id ''/u/:id''),
        r_handler = FrameRoute\<rparr>,
       \<lparr>r_method = Only GET,
        r_path = mergePath example_hono (basePath (hono ?fresh)) (id ''/u/:id'' @ ''/image''),
        r_handler = ImageRoute\<rparr>,
       \<lparr>r_method = METHOD_NAME_ALL,
        r_path = mergePath example_hono (basePath (hono ?fresh)) (id ''/u/:id'' @ ''/dev''),
        r_handler = DevRenderer\<rparr>,
       \<lparr>r_method = Only GET,
        r_path = mergePath example_hono (basePath (hono ?fresh)) (id ''/u/:id'' @ ''/dev''),
        r_handler = DevGet\<rparr>,
       \<lparr>r_method = Only POST,
        r_path = mergePath example_hono (basePath (hono ?fresh)) (id ''/u/:id'' @ ''/dev''),
        r_handler = DevPost\<rparr>]"
    by blast
  have answer: "responder example_hono (hono t) m q =
      (if path_matches example_hono ''/u/:id'' q then Some FrameRoute
       else if path_matches example_hono ''/u/:id/image'' q \<and> m = GET then Some ImageRoute
       else if path_matches example_hono ''/u/:id/dev'' q \<and> m = GET then Some DevGet
       else if path_matches example_hono ''/u/:id/dev'' q \<and> m = POST then Some DevPost
       else None)" for m q
    using reg [of id "''/u/:id''" m q] t fresh(2) by (auto simp add: nh merge)
  have A: "frame example_hono id ''/u/:id'' ?fresh = Inr t
      \<and> map r_path (routes (hono t)) =
          [''/u/:id'', ''/u/:id/image'', ''/u/:id/dev'', ''/u/:id/dev'', ''/u/:id/dev'']
      \<and> responder example_hono (hono t) GET ''/u/5'' = Some FrameRoute
      \<and> responder example_hono (hono t) DELETE ''/u/5'' = Some FrameRoute
      \<and> responder example_hono (hono t) GET ''/u/5/image'' = Some ImageRoute
      \<and> responder example_hono (hono t) POST ''/u/5/image'' = None
      \<and> responder example_hono (hono t) POST ''/u/5/dev'' = Some DevPost
      \<and> responder example_hono (hono t) PUT ''/u/5/dev'' = None"
    by (simp add: t rt answer matches nh merge)
  from reg [of "\<lambda>p. []" "''/''" GET "''/''"] fresh(2)
  have B: "\<exists>u. frame example_hono (\<lambda>p. []) ''/'' ?fresh = Inr u
      \<and> map r_path (routes (hono u)) = [''/'', ''/image'', ''/dev'', ''/dev'', ''/dev'']
      \<and> responder example_hono (hono u) GET ''/'' = Some FrameRoute"
    by (auto simp add: nh merge matches)
  note C = frame_registers [THEN conjunct2, THEN conjunct2, rule_format, OF closes,
      of id "''/b''" example_farc GET "''/a''"]
  show ?thesis
    by (rule conjI, rule exI [of _ t], rule A, rule conjI, rule B, rule C)
qed

text \<open>The specification lists GET and POST for the frame page and nothing else; a PUT to
  the frame's path is answered by the frame route as well.\<close>

theorem put_reaches_frame_route:
  "frame example_hono id ''/a'' \<lparr>private_initialState = (0::nat), hono = new_hono\<rparr>
     = Inr example_farc
   \<and> responder example_hono (hono example_farc) PUT ''/a'' = Some FrameRoute"
  by (simp add: frame_open new_hono_def example_farc_def example_hono_def Let_def
        responder_def route_matches_def responds_def)

section \<open>The frame page\<close>

text \<open>
  C4: whenever the frame route renders a page, the fifth tag of the head is
  \<open>fc:frame:post_url\<close>; its content ends with the search parameters holding, under
  \<open>previousContext\<close>, the serialization of the request's context with \<open>intents\<close> set to
  the parsed intents and \<open>previousState\<close> to \<open>context.deriveState()\<close>. The other tags
  are built from the serialized context, the incoming parameter and the intents' tags,
  and the instance is returned as it was given.
\<close>

theorem previous_context_in_post_url:
  assumes "decode_previousContext D req = Inr prev"
    and "requestToContext D req = Inr c0"
    and "getFrameContext D \<lparr>p_context = c0, p_initialState = private_initialState this,
           p_previousContext = prev, p_request = req\<rparr> = Inr ctx"
    and "url ctx = parsePath D (req_url req)"
    and "handler ctx prev = Inr r"
  shows "\<exists>page calls.
           frame_route D handler this req = (Inr (Render page), calls, this)
           \<and> head page ! 4 =
               Meta ''fc:frame:post_url''
                 ((if truthy (action r)
                   then (origin req @ pathname req) @ parsePath D (or_empty (action r))
                   else url ctx) @ ''?'' @
                  searchParams_toString D
                    (if serializedPreviousContext D ctx r = [] then []
                     else [(''previousContext'', serializedPreviousContext D ctx r)]))
           \<and> serializedPreviousContext D ctx r =
               serializeJson D
                 (ctx\<lparr>intents := Some (map_option (parseIntents D) (handler_intents r)),
                       previousState := Some (deriveState ctx ())\<rparr>)
           \<and> take 4 (head page) @ drop 5 (head page) =
               [Meta ''fc:frame'' ''vNext'',
                Meta ''fc:frame:image''
                  (parsePath D (url ctx) @ ''/image?'' @
                   searchParams_toString D
                     (ogSearch (query req ''previousContext'') (serializeJson D ctx))),
                Meta ''fc:frame:image:aspect_ratio''
                  (case imageAspectRatio r of None \<Rightarrow> ''1.91:1'' | Some a \<Rightarrow> a),
                Meta ''og:image''
                  (parsePath D (url ctx) @ ''/image?'' @
                   searchParams_toString D
                     (ogSearch (query req ''previousContext'') (serializeJson D ctx)))]
               @ (case handler_intents r of None \<Rightarrow> [] | Some i \<Rightarrow> parseIntents D i)
               @ [Meta ''farc:context'' (serializeJson D ctx)]
               @ (if truthy (query req ''previousContext'')
                  then [Meta ''farc:prev_context'' (or_empty (query req ''previousContext''))]
                  else [])"
  using assms
  by (cases "handler_intents r")
     (simp_all add: frame_route_def head_frame_page postSearch_def
        serializedPreviousContext_def parsedIntents_def)

theorem previous_context_in_post_url_witness:
  "\<exists>page calls.
     frame_route example_deps (example_handler None (Some [''Back'', ''Next''])) example_farc
         (example_request Map.empty)
       = (Inr (Render page), calls, example_farc)
     \<and> head page ! 4 =
         Meta ''fc:frame:post_url'' ''http://h/a?previousContext=http://h/a+state&''"
  using previous_context_in_post_url [of example_deps "example_request Map.empty" None
      "example_context ''http://h/a''" example_farc "example_context ''http://h/a''"
      "example_handler None (Some [''Back'', ''Next''])"
      "\<lparr>action = None, image_jsx = ''<div/>'', imageAspectRatio = None,
        handler_intents = Some [''Back'', ''Next'']\<rparr>"]
  by (simp add: example_decode_none example_requestToContext example_getFrameContext_none
        example_parsePath example_handler_def)
     (auto simp add: example_context_def example_deps_def serializedPreviousContext_def
        truthy_def)

text \<open>
  C6: with the intents translated as the specification describes, whenever the frame
  route renders a page the head is five fixed tags, then the tags of the intents in the
  order of the handler's list, each from its position and itself, then the tags of the
  context. Without intents no tag stands between the fixed ones and the context's.
\<close>

theorem intents_in_order:
  assumes "parseIntents D = parseIntents_spec tag"
    and "decode_previousContext D req = Inr prev"
    and "requestToContext D req = Inr c0"
    and "getFrameContext D \<lparr>p_context = c0, p_initialState = private_initialState this,
           p_previousContext = prev, p_request = req\<rparr> = Inr ctx"
    and "url ctx = parsePath D (req_url req)"
    and "handler ctx prev = Inr r"
  shows "\<exists>page. fst (frame_route D handler this req) = Inr (Render page)
           \<and> map property (take 5 (head page)) =
               [''fc:frame'', ''fc:frame:image'', ''fc:frame:image:aspect_ratio'',
                ''og:image'', ''fc:frame:post_url'']
           \<and> drop 5 (head page) =
               (case handler_intents r of
                  None \<Rightarrow> []
                | Some xs \<Rightarrow> concat (map (\<lambda>(k, x). tag k x) (enumerate 0 xs)))
               @ [Meta ''farc:context'' (serializeJson D ctx)]
               @ (if truthy (query req ''previousContext'')
                  then [Meta ''farc:prev_context'' (or_empty (query req ''previousContext''))]
                  else [])"
  using assms
  by (cases "handler_intents r")
     (simp_all add: frame_route_def head_frame_page parsedIntents_def parseIntents_spec_def
        parseIntents_from_enumerate)

theorem intents_in_order_witness:
  "(\<exists>page. fst (frame_route example_deps (example_handler None (Some [''Back'', ''Next'']))
               example_farc (example_request Map.empty)) = Inr (Render page)
      \<and> drop 5 (head page) =
          [Meta ''fc:frame:button:1'' ''Back'', Meta ''fc:frame:button:2'' ''Next'',
           Meta ''farc:context'' ''http://h/a''])
   \<and> (\<exists>page. fst (frame_route example_deps (example_handler None None)
               example_farc (example_request Map.empty)) = Inr (Render page)
      \<and> drop 5 (head page) = [Meta ''farc:context'' ''http://h/a''])"
  using
    intents_in_order [of example_deps example_button "example_request Map.empty" None
      "example_context ''http://h/a''" example_farc "example_context ''http://h/a''"
      "example_handler None (Some [''Back'', ''Next''])"
      "\<lparr>action = None, image_jsx = ''<div/>'', imageAspectRatio = None,
        handler_intents = Some [''Back'', ''Next'']\<rparr>"]
    intents_in_order [of example_deps example_button "example_request Map.empty" None
      "example_context ''http://h/a''" example_farc "example_context ''http://h/a''"
      "example_handler None None"
      "\<lparr>action = None, image_jsx = ''<div/>'', imageAspectRatio = None,
        handler_intents = None\<rparr>"]
  by (simp add: example_decode_none example_requestToContext example_getFrameContext_none
        example_parsePath example_handler_def)
     (auto simp add: example_context_def example_deps_def example_button_def
        example_request_def truthy_def enumerate_eq_zip)

text \<open>
  C10: whenever the frame route renders a page, the third tag of the head is
  \<open>fc:frame:image:aspect_ratio\<close>, and its content is \<open>1.91:1\<close> if the handler's
  result has no \<open>imageAspectRatio\<close> and the handler's value otherwise.
\<close>

theorem aspect_ratio_default:
  assumes "decode_previousContext D req = Inr prev"
    and "requestToContext D req = Inr c0"
    and "getFrameContext D \<lparr>p_context = c0, p_initialState = private_initialState this,
           p_previousContext = prev, p_request = req\<rparr> = Inr ctx"
    and "url ctx = parsePath D (req_url req)"
    and "handler ctx prev = Inr r"
  shows "\<exists>page. fst (frame_route D handler this req) = Inr (Render page) \<and>
           head page ! 2 =
             Meta ''fc:frame:image:aspect_ratio''
               (case imageAspectRatio r of None \<Rightarrow> ''1.91:1'' | Some a \<Rightarrow> a)"
  using assms by (simp add: frame_route_def head_frame_page)

theorem aspect_ratio_default_witness:
  "(\<exists>page. fst (frame_route example_deps (example_handler None None) example_farc
               (example_request Map.empty)) = Inr (Render page)
          \<and> head page ! 2 = Meta ''fc:frame:image:aspect_ratio'' ''1.91:1'')
   \<and> (\<exists>page. fst (frame_route example_deps (example_handler (Some ''1:1'') None) example_farc
               (example_request Map.empty)) = Inr (Render page)
          \<and> head page ! 2 = Meta ''fc:frame:image:aspect_ratio'' ''1:1'')"
  using
    aspect_ratio_default [of example_deps "example_request Map.empty" None
      "example_context ''http://h/a''" example_farc "example_context ''http://h/a''"
      "example_handler None None"
      "\<lparr>action = None, image_jsx = ''<div/>'', imageAspectRatio = None, handler_intents = None\<rparr>"]
    aspect_ratio_default [of example_deps "example_request Map.empty" None
      "example_context ''http://h/a''" example_farc "example_context ''http://h/a''"
      "example_handler (Some ''1:1'') None"
      "\<lparr>action = None, image_jsx = ''<div/>'', imageAspectRatio = Some ''1:1'',
        handler_intents = None\<rparr>"]
  by (simp add: example_decode_none example_requestToContext example_getFrameContext_none
        example_parsePath example_context_def example_handler_def)

section \<open>The previous context of a request\<close>



text \<open>
  C9, as the code has it: when the context's URL differs from the parsed path of the
  request URL, the handler is not called, and the route answers with \<open>c.redirect\<close> of
  the context's URL followed by \<open>?previousContext=\<close> and the incoming value of that
  parameter: a redirect to that target as the \<open>Location\<close> header stores it, or what
  \<open>Headers.set\<close> throws on a target that is no header value. (For a request without the
  parameter the template literal gives the text \<open>undefined\<close> in its place.)
\<close>

theorem redirect_skips_handler:
  assumes "decode_previousContext D req = Inr prev"
    and "requestToContext D req = Inr c0"
    and "getFrameContext D \<lparr>p_context = c0, p_initialState = private_initialState this,
           p_previousContext = prev, p_request = req\<rparr> = Inr ctx"
    and "url ctx \<noteq> parsePath D (req_url req)"
  shows "fst (snd (frame_route D handler this req)) =
           [CallGetFrameContext \<lparr>p_context = c0, p_initialState = private_initialState this,
              p_previousContext = prev, p_request = req\<rparr>]
         \<and> \<not> list_ex is_handler_call (fst (snd (frame_route D handler this req)))
         \<and> (\<forall>v. query req ''previousContext'' = Some v \<longrightarrow>
               fst (frame_route D handler this req) =
                 (case Headers_set D (url ctx @ ''?previousContext='' @ v) of
                    Inl e \<Rightarrow> Inl e
                  | Inr stored \<Rightarrow> Inr (Redirect stored)))
         \<and> (query req ''previousContext'' = None \<longrightarrow>
               fst (frame_route D handler this req) =
                 (case Headers_set D (url ctx @ ''?previousContext=undefined'') of
                    Inl e \<Rightarrow> Inl e
                  | Inr stored \<Rightarrow> Inr (Redirect stored)))"
  using assms by (simp add: frame_route_def template_def c_redirect_def)

theorem redirect_skips_handler_witness:
  "fst (frame_route example_deps (example_handler None None) example_farc
          (example_request [''previousContext'' \<mapsto> ''http://h/b'']))
     = Inr (Redirect ''http://h/b?previousContext=http://h/b'')
   \<and> \<not> list_ex is_handler_call
         (fst (snd (frame_route example_deps (example_handler None None) example_farc
            (example_request [''previousContext'' \<mapsto> ''http://h/b'']))))"
proof -
  let ?req = "example_request [''previousContext'' \<mapsto> ''http://h/b'']"
  have q: "query ?req ''previousContext'' = Some ''http://h/b''"
    by (simp add: example_request_def)
  have h: "Headers_set example_deps (''http://h/b'' @ ''?previousContext='' @ ''http://h/b'')
      = Inr ''http://h/b?previousContext=http://h/b''"
    by (simp add: example_deps_def example_Headers_set_def is_header_space_def Let_def)
  have u: "url ((example_context ''http://h/a'')\<lparr>url := ''http://h/b''\<rparr>)
      \<noteq> parsePath example_deps (req_url ?req)"
    by (simp add: example_parsePath)
  note th = redirect_skips_handler [of example_deps ?req
      "Some (example_context ''http://h/b'')" "example_context ''http://h/a''" example_farc
      "(example_context ''http://h/a'')\<lparr>url := ''http://h/b''\<rparr>" "example_handler None None",
      OF example_decode_some example_requestToContext _ u]
  have g: "getFrameContext example_deps
      \<lparr>p_context = example_context ''http://h/a'',
       p_initialState = private_initialState example_farc,
       p_previousContext = Some (example_context ''http://h/b''), p_request = ?req\<rparr>
      = Inr ((example_context ''http://h/a'')\<lparr>url := ''http://h/b''\<rparr>)"
    by (simp add: example_getFrameContext_some example_context_def)
  from th [OF g] q h show ?thesis
    by simp
qed

text \<open>The specification has the response be a redirect whenever the URLs differ; with a
  line feed in the incoming value, setting the header throws and there is no redirect.\<close>

theorem redirect_refused:
  "fst (frame_route example_deps (example_handler None None) example_farc
          (example_request [''previousContext'' \<mapsto> ''http://h/b'' @ [CHR 0x0A] @ ''x'']))
     = Inl (Rejected ''TypeError: invalid header value'')
   \<and> length (fst (snd (frame_route example_deps (example_handler None None) example_farc
          (example_request [''previousContext'' \<mapsto> ''http://h/b'' @ [CHR 0x0A] @ ''x''])))) = 1"
  by (simp add: frame_route_def decode_previousContext_def truthy_def c_redirect_def
        template_def example_request_def example_deps_def example_context_def
        example_Headers_set_def is_header_space_def Let_def)

section \<open>The instance\<close>

text \<open>
  C8: each of the four handlers returns the instance it was given: the private initial
  state and the registered routes are the same after the request as before.
\<close>

theorem handlers_leave_instance:
  "snd (snd (frame_route D handler this req)) = this
   \<and> snd (snd (image_route D handler this req)) = this
   \<and> fst (snd (snd (dev_get E this req w))) = this
   \<and> fst (snd (snd (dev_post E this req w))) = this"
  by (simp add: frame_route_def image_route_def dev_get_def dev_post_def Let_def
        split: sum.splits prod.splits)

section \<open>The developer preview, POST\<close>

text \<open>
  C1: let the form be readable, the signing succeed and the callback request come back
  with a response. If its status is not 200, the requests sent are that one and then one
  GET of the request URL with its first \<open>/dev\<close> removed, and a preview that is rendered
  shows the frame and state read from the body of that second response, with the status
  text of the first as its error. If the status is 200, the callback request is the only
  one, and the preview is read from its body, with no error.
\<close>

theorem dev_post_fallback:
  assumes "formData req = Inr form"
    and "randomPrivateKey D w = (k, w1)"
    and "makeFrameAction D (frameActionBody D req form) frameActionOptions
           (NobleEd25519Signer k) w1 = (Inr m, w2)"
    and "fetch D (callback_request D req form m) w2 = (Inr r1, w3)"
  shows "(status r1 \<noteq> 200 \<longrightarrow>
            filter is_fetch (fst (snd (dev_post D this req w))) =
              [Fetched (callback_request D req form m) (Inr r1),
               Fetched (page_request req) (fst (fetch D (page_request req) w3))]
            \<and> page_request req =
                \<lparr>fr_method = GET, fr_url = Some (js_replace ''/dev'' [] (req_url req)),
                 fr_body = None\<rparr>
            \<and> (\<forall>r2 t. fst (fetch D (page_request req) w3) = Inr r2 \<and> body_text r2 = Inr t \<longrightarrow>
                  fst (dev_post D this req w) =
                    Inr (dev_render req
                      (Preview \<lparr>pv_baseUrl = dev_baseUrl req,
                                pv_error = Some (statusText r1),
                                pv_frame = htmlToFrame D t,
                                pv_routes = getRoutes D (dev_baseUrl req) (routes (hono this)),
                                pv_state = htmlToState D t\<rparr>))))
         \<and> (status r1 = 200 \<longrightarrow>
            filter is_fetch (fst (snd (dev_post D this req w))) =
              [Fetched (callback_request D req form m) (Inr r1)]
            \<and> (\<forall>t. body_text r1 = Inr t \<longrightarrow>
                  fst (dev_post D this req w) =
                    Inr (dev_render req
                      (Preview \<lparr>pv_baseUrl = dev_baseUrl req,
                                pv_error = None,
                                pv_frame = htmlToFrame D t,
                                pv_routes = getRoutes D (dev_baseUrl req) (routes (hono this)),
                                pv_state = htmlToState D t\<rparr>))))"
  using assms
  by (auto simp add: dev_post_def Let_def preview_of_def page_request_def dev_baseUrl_def
        split: sum.splits prod.splits)

theorem dev_post_fallback_witness:
  "filter is_fetch
     (fst (snd (dev_post example_dev_deps example_farc
        (example_dev_request [''buttonIndex'' \<mapsto> ''1'', ''postUrl'' \<mapsto> ''http://h/b'']) 0))) =
     [Fetched \<lparr>fr_method = POST, fr_url = Some ''http://h/b'', fr_body = Some ''http://h/a 0x01 0100''\<rparr>
        (Inr \<lparr>status = 500, statusText = ''Internal Server Error'', body_text = Inr []\<rparr>),
      Fetched \<lparr>fr_method = GET, fr_url = Some ''http://h/a'', fr_body = None\<rparr>
        (Inr \<lparr>status = 200, statusText = ''OK'', body_text = Inr ''<initial/>''\<rparr>)]
   \<and> fst (dev_post example_dev_deps example_farc
        (example_dev_request [''buttonIndex'' \<mapsto> ''1'', ''postUrl'' \<mapsto> ''http://h/b'']) 0) =
       Inr \<lparr>title_path = ''/a'',
            children = Preview \<lparr>pv_baseUrl = ''http://h/a'',
                                 pv_error = Some ''Internal Server Error'',
                                 pv_frame = ''<initial/>'', pv_routes = 5, pv_state = 10\<rparr>\<rparr>
   \<and> filter is_fetch
     (fst (snd (dev_post example_dev_deps example_farc
        (example_dev_request [''buttonIndex'' \<mapsto> ''1'', ''postUrl'' \<mapsto> ''http://h/a'']) 0))) =
     [Fetched \<lparr>fr_method = POST, fr_url = Some ''http://h/a'', fr_body = Some ''http://h/a 0x01 0100''\<rparr>
        (Inr \<lparr>status = 200, statusText = ''OK'', body_text = Inr ''<next/>''\<rparr>)]
   \<and> fst (dev_post example_dev_deps example_farc
        (example_dev_request [''buttonIndex'' \<mapsto> ''1'', ''postUrl'' \<mapsto> ''http://h/a'']) 0) =
       Inr \<lparr>title_path = ''/a'',
            children = Preview \<lparr>pv_baseUrl = ''http://h/a'', pv_error = None,
                                 pv_frame = ''<next/>'', pv_routes = 5, pv_state = 7\<rparr>\<rparr>"
proof -
  let ?fb = "[''buttonIndex'' \<mapsto> ''1'', ''postUrl'' \<mapsto> ''http://h/b''] :: string \<Rightarrow> string option"
  let ?fa = "[''buttonIndex'' \<mapsto> ''1'', ''postUrl'' \<mapsto> ''http://h/a''] :: string \<Rightarrow> string option"
  let ?r500 = "\<lparr>status = 500, statusText = ''Internal Server Error'', body_text = Inr []\<rparr>"
  let ?r200 = "\<lparr>status = 200, statusText = ''OK'', body_text = Inr ''<next/>''\<rparr>"
  let ?page = "\<lparr>status = 200, statusText = ''OK'', body_text = Inr ''<initial/>''\<rparr>"
  have key: "randomPrivateKey example_dev_deps 0 = (replicate 32 0, Suc 0)"
    by (simp add: example_dev_deps_def)
  have sign_b: "makeFrameAction example_dev_deps
      (frameActionBody example_dev_deps (example_dev_request ?fb) ?fb) frameActionOptions
      (NobleEd25519Signer (replicate 32 0)) (Suc 0) = (Inr (Suc 0), Suc (Suc 0))"
    by (rule example_sign) simp
  have sign_a: "makeFrameAction example_dev_deps
      (frameActionBody example_dev_deps (example_dev_request ?fa) ?fa) frameActionOptions
      (NobleEd25519Signer (replicate 32 0)) (Suc 0) = (Inr (Suc 0), Suc (Suc 0))"
    by (rule example_sign) simp
  have post_b: "fetch example_dev_deps
      (callback_request example_dev_deps (example_dev_request ?fb) ?fb (Suc 0)) (Suc (Suc 0))
      = (Inr ?r500, 3)"
    by (simp add: example_callback) (simp add: example_dev_deps_def)
  have post_a: "fetch example_dev_deps
      (callback_request example_dev_deps (example_dev_request ?fa) ?fa (Suc 0)) (Suc (Suc 0))
      = (Inr ?r200, 3)"
    by (simp add: example_callback) (simp add: example_dev_deps_def)
  have get_page: "fst (fetch example_dev_deps (page_request (example_dev_request ?fb)) 3)
      = Inr ?page"
    by (simp add: example_page_request) (simp add: example_dev_deps_def)
  note b = dev_post_fallback [OF example_dev_request_fields(1) key sign_b post_b, of example_farc]
  note a = dev_post_fallback [OF example_dev_request_fields(1) key sign_a post_a, of example_farc]
  from b have b1: "filter is_fetch
      (fst (snd (dev_post example_dev_deps example_farc (example_dev_request ?fb) 0))) =
      [Fetched (callback_request example_dev_deps (example_dev_request ?fb) ?fb (Suc 0)) (Inr ?r500),
       Fetched (page_request (example_dev_request ?fb)) (Inr ?page)]"
    by (simp add: get_page)
  from b have b2: "fst (dev_post example_dev_deps example_farc (example_dev_request ?fb) 0) =
      Inr \<lparr>title_path = ''/a'',
           children = Preview \<lparr>pv_baseUrl = ''http://h/a'',
                                pv_error = Some ''Internal Server Error'',
                                pv_frame = ''<initial/>'', pv_routes = 5,
                                pv_state = length ''<initial/>''\<rparr>\<rparr>"
    by (simp add: get_page example_preview)
  from a have a1: "filter is_fetch
      (fst (snd (dev_post example_dev_deps example_farc (example_dev_request ?fa) 0))) =
      [Fetched (callback_request example_dev_deps (example_dev_request ?fa) ?fa (Suc 0)) (Inr ?r200)]"
    by simp
  from a have a2: "fst (dev_post example_dev_deps example_farc (example_dev_request ?fa) 0) =
      Inr \<lparr>title_path = ''/a'',
           children = Preview \<lparr>pv_baseUrl = ''http://h/a'', pv_error = None,
                                pv_frame = ''<next/>'', pv_routes = 5,
                                pv_state = length ''<next/>''\<rparr>\<rparr>"
    by (simp add: example_preview)
  from b1 b2 a1 a2 show ?thesis
    by (simp add: example_callback example_page_request)
qed

text \<open>
  C3, as the code has it: when the form can be read, the handler draws a key from the
  random generator, builds the body with the placeholder cast id (fid 2, twenty zero
  bytes) and calls \<open>makeFrameAction\<close> with fid 2, network 1 and a signer of that key.
  If that gives a message, the third thing the handler does is the one POST of the
  request, to the \<open>postUrl\<close> of the form, with the body of lines 309 to 330: the JSON of
  the untrusted data, among them the hash and the timestamp of the message, and of the
  encoded message in hex. If it gives an error, the unwrap throws and no request is
  sent.
\<close>

theorem dev_post_signs_then_posts:
  assumes "formData req = Inr form"
    and "randomPrivateKey D w = (k, w1)"
    and "makeFrameAction D (frameActionBody D req form) frameActionOptions
           (NobleEd25519Signer k) w1 = (res, w2)"
  shows "take 2 (fst (snd (dev_post D this req w))) =
           [DrewKey k,
            MadeFrameAction (frameActionBody D req form) frameActionOptions
              (NobleEd25519Signer k)]
         \<and> frameActionBody D req form =
             \<lparr>fab_url = buffer_from (js_replace ''/dev'' [] (req_url req)),
              fab_buttonIndex = form_buttonIndex D form,
              fab_castId = \<lparr>cid_fid = 2, cid_hash = replicate 20 0\<rparr>,
              fab_inputText = form_inputText form\<rparr>
         \<and> frameActionOptions = \<lparr>opt_fid = 2, opt_network = 1\<rparr>
         \<and> (\<forall>m. res = Inr m \<longrightarrow>
               filter is_post (fst (snd (dev_post D this req w))) =
                 [Fetched (callback_request D req form m)
                    (fst (fetch D (callback_request D req form m) w2))]
               \<and> fst (snd (dev_post D this req w)) ! 2 =
                   Fetched (callback_request D req form m)
                     (fst (fetch D (callback_request D req form m) w2))
               \<and> callback_request D req form m =
                   \<lparr>fr_method = POST,
                    fr_url = form ''postUrl'',
                    fr_body = Some (JSON_stringify D
                      \<lparr>untrustedData =
                         \<lparr>ud_buttonIndex = form_buttonIndex D form,
                          ud_castId =
                            \<lparr>ud_cast_fid = 2,
                             ud_cast_hash = ''0x'' @ bytesToHex (replicate 20 0)\<rparr>,
                          ud_fid = 2,
                          ud_inputText = map_option buffer_toString (form_inputText form),
                          ud_messageHash = ''0x'' @ bytesToHex (message_hash D m),
                          ud_network = 1,
                          ud_timestamp = message_timestamp D m,
                          ud_url = js_replace ''/dev'' [] (req_url req)\<rparr>,
                       trustedData_messageBytes = bytesToHex (Message_encode D m)\<rparr>)\<rparr>)
         \<and> (\<forall>e. res = Inl e \<longrightarrow>
               fst (dev_post D this req w) = Inl (UnwrapFailed e)
               \<and> filter is_fetch (fst (snd (dev_post D this req w))) = [])"
  using assms
  by (auto simp add: dev_post_def Let_def page_request_def callback_request_def
        frameActionBody_def frameActionOptions_def placeholder_fid_def castId_value
        dev_baseUrl_def
        split: sum.splits prod.splits)

theorem dev_post_signs_then_posts_witness:
  "filter is_post
     (fst (snd (dev_post example_dev_deps example_farc
        (example_dev_request [''buttonIndex'' \<mapsto> ''1'', ''postUrl'' \<mapsto> ''http://h/b'']) 0))) =
     [Fetched \<lparr>fr_method = POST, fr_url = Some ''http://h/b'', fr_body = Some ''http://h/a 0x01 0100''\<rparr>
        (Inr \<lparr>status = 500, statusText = ''Internal Server Error'', body_text = Inr []\<rparr>)]
   \<and> take 2 (fst (snd (dev_post example_dev_deps example_farc
        (example_dev_request [''buttonIndex'' \<mapsto> ''1'', ''postUrl'' \<mapsto> ''http://h/b'']) 0))) =
     [DrewKey (replicate 32 0),
      MadeFrameAction
        \<lparr>fab_url = buffer_from ''http://h/a'', fab_buttonIndex = Some 1,
         fab_castId = \<lparr>cid_fid = 2, cid_hash = replicate 20 0\<rparr>, fab_inputText = None\<rparr>
        \<lparr>opt_fid = 2, opt_network = 1\<rparr>
        (NobleEd25519Signer (replicate 32 0))]"
proof -
  let ?f = "[''buttonIndex'' \<mapsto> ''1'', ''postUrl'' \<mapsto> ''http://h/b''] :: string \<Rightarrow> string option"
  let ?req = "example_dev_request ?f"
  have body: "frameActionBody example_dev_deps ?req ?f =
      \<lparr>fab_url = buffer_from ''http://h/a'', fab_buttonIndex = Some 1,
       fab_castId = \<lparr>cid_fid = 2, cid_hash = replicate 20 0\<rparr>, fab_inputText = None\<rparr>"
    by (simp add: frameActionBody_def form_buttonIndex_def form_inputText_def
          example_dev_baseUrl castId_value example_dev_deps_def)
  have key: "randomPrivateKey example_dev_deps 0 = (replicate 32 0, Suc 0)"
    by (simp add: example_dev_deps_def)
  have sign: "makeFrameAction example_dev_deps (frameActionBody example_dev_deps ?req ?f)
      frameActionOptions (NobleEd25519Signer (replicate 32 0)) (Suc 0)
      = (Inr (Suc 0), Suc (Suc 0))"
    by (rule example_sign) simp
  have post: "fst (fetch example_dev_deps
      \<lparr>fr_method = POST, fr_url = Some ''http://h/b'', fr_body = Some ''http://h/a 0x01 0100''\<rparr>
      (Suc (Suc 0)))
      = Inr \<lparr>status = 500, statusText = ''Internal Server Error'', body_text = Inr []\<rparr>"
    by (simp add: example_dev_deps_def)
  from dev_post_signs_then_posts [OF example_dev_request_fields(1) key sign, of example_farc]
  show ?thesis
    by (simp add: post example_callback body frameActionOptions_def placeholder_fid_def)
qed

text \<open>The specification has every invocation send the message; with a button index that
  the signing stand-in rejects, no request is sent.\<close>

theorem unsigned_sends_nothing:
  "filter is_post
     (fst (snd (dev_post example_dev_deps example_farc
        (example_dev_request [''buttonIndex'' \<mapsto> ''9'', ''postUrl'' \<mapsto> ''http://h/b'']) 0))) = []
   \<and> fst (dev_post example_dev_deps example_farc
        (example_dev_request [''buttonIndex'' \<mapsto> ''9'', ''postUrl'' \<mapsto> ''http://h/b'']) 0)
       = Inl (UnwrapFailed ''invalid button index'')"
  by (simp add: dev_post_def Let_def example_dev_request_fields frameActionBody_def
        form_buttonIndex_def example_dev_deps_def)

end
